theory Spec2Isabelle
  imports Main
begin

section \<open>Data model\<close>

text \<open>
  A shallow embedding of \<^verbatim>\<open>src/api/auth/authService.ts\<close> and
  \<^verbatim>\<open>src/api/user/userRepository.ts\<close>. A rejected promise or a thrown
  \<^verbatim>\<open>Error\<close> is the left summand of a sum type, carrying the error's message;
  \<^verbatim>\<open>await\<close> on it leaves the \<^verbatim>\<open>try\<close> block for the \<^verbatim>\<open>catch\<close>.
\<close>

text \<open>
  Modelled from the spec: the enum \<^verbatim>\<open>ResponseStatus\<close> of \<^verbatim>\<open>@/enums\<close> and the class
  \<^verbatim>\<open>ServiceResponse\<close> of \<^verbatim>\<open>@/common/models/serviceResponse\<close> are imported by the service
  and are not among the sources. The constructor's four arguments are, in order, the
  status, the message, the optional payload and the numeric status code.
\<close>

datatype ResponseStatus = Success | Failed

record 'a ServiceResponse =
  status :: ResponseStatus
  message :: string
  responseObject :: "'a option"
  statusCode :: nat

definition new_ServiceResponse ::
  "ResponseStatus \<Rightarrow> string \<Rightarrow> 'a option \<Rightarrow> nat \<Rightarrow> 'a ServiceResponse" where
  "new_ServiceResponse st msg obj code =
     \<lparr>status = st, message = msg, responseObject = obj, statusCode = code\<rparr>"

text \<open>The three members of \<^verbatim>\<open>StatusCodes\<close> (package http-status-codes) the service uses.\<close>

definition StatusCodes_OK :: nat where
  "StatusCodes_OK = 200"

definition StatusCodes_UNPROCESSABLE_ENTITY :: nat where
  "StatusCodes_UNPROCESSABLE_ENTITY = 422"

definition StatusCodes_INTERNAL_SERVER_ERROR :: nat where
  "StatusCodes_INTERNAL_SERVER_ERROR = 500"

text \<open>
  Modelled from the spec: the document type \<^verbatim>\<open>IUser\<close> and the model \<^verbatim>\<open>User\<close> of
  \<^verbatim>\<open>@/api/user/userModel\<close> are not among the sources. The fields are the ones the
  service writes in \<^verbatim>\<open>register\<close> and reads in the login flows; \<open>oid\<close> is the
  document's \<^verbatim>\<open>_id\<close>, the key of \<^verbatim>\<open>findByIdAndUpdate\<close>.
\<close>

record IUser =
  oid :: string
  IdUser :: string
  name :: string
  email :: string
  password :: string
  Role :: string
  phoneNumber :: string
  Date :: string
  Gender :: string
  Avatar :: string
  age :: string
  createAt :: nat
  updatedAt :: nat
  IdDoctor :: string

text \<open>
  The world the service runs in: the \<^verbatim>\<open>User\<close> collection in insertion order, the
  error a query or a write of the backing store is rejected with (if any), and the
  lines \<^verbatim>\<open>logger.error\<close> has written.
\<close>

record world =
  users :: "IUser list"
  readFault :: "string option"
  writeFault :: "string option"
  errorLog :: "string list"

definition logger_error :: "string \<Rightarrow> world \<Rightarrow> world" where
  "logger_error msg w = w\<lparr>errorLog := errorLog w @ [msg]\<rparr>"

text \<open>The result of an asynchronous call that was not awaited: its eventual outcome.\<close>

datatype 'a promise = Promise "string + 'a"

subsection \<open>The libraries: process.env, jsonwebtoken, bcryptjs\<close>

record env =
  JWT_SECRET :: "string option"
  TOKEN_SECRET :: "string option"

text \<open>
  JavaScript's \<^verbatim>\<open>v || d\<close> on a possibly undefined string: an unset variable and the
  empty string are both falsy.
\<close>

definition or_default :: "string option \<Rightarrow> string \<Rightarrow> string" where
  "or_default v d = (case v of None \<Rightarrow> d | Some x \<Rightarrow> if x = [] then d else x)"

text \<open>
  A signed token, symbolically: the claims signed, the secret they were signed with and
  the \<^verbatim>\<open>expiresIn\<close> option. \<^verbatim>\<open>jwt.sign\<close> throws when the secret is falsy.
\<close>

datatype jwt =
  Jwt (payload: "(string \<times> string) list") (secretOrPrivateKey: string) (expiresIn: string)

definition jwt_sign :: "(string \<times> string) list \<Rightarrow> string \<Rightarrow> string \<Rightarrow> string + jwt" where
  "jwt_sign pl secret expires =
     (if secret = [] then Inl ''secretOrPrivateKey must have a value''
      else Inr (Jwt pl secret expires))"

text \<open>
  bcryptjs is a parameter of the model. Each of its three asynchronous functions either
  resolves (\<open>Inr\<close>) or rejects with an error (\<open>Inl\<close>, the error's message):
  \<open>bcrypt_genSalt rounds entropy\<close> is the salt drawn for a work factor from the random
  bytes \<open>entropy\<close>, \<open>bcrypt_hash s salt\<close> the hash of \<open>s\<close> under that salt,
  \<open>bcrypt_compare s h\<close> the verification of \<open>s\<close> against a stored hash.
\<close>

record bcrypt =
  bcrypt_genSalt :: "nat \<Rightarrow> string \<Rightarrow> string + string"
  bcrypt_hash :: "string \<Rightarrow> string \<Rightarrow> string + string"
  bcrypt_compare :: "string \<Rightarrow> string \<Rightarrow> string + bool"

text \<open>
  \<^verbatim>\<open>bcrypt.hash(s, rounds)\<close>: given a number for the salt, bcryptjs draws a salt of that
  work factor and hashes under it.
\<close>

definition bcrypt_hash_rounds :: "bcrypt \<Rightarrow> string \<Rightarrow> nat \<Rightarrow> string \<Rightarrow> string + string" where
  "bcrypt_hash_rounds bc s rounds entropy =
     (case bcrypt_genSalt bc rounds entropy of
        Inl ex \<Rightarrow> Inl ex
      | Inr salt \<Rightarrow> bcrypt_hash bc s salt)"

subsection \<open>Payload types\<close>

text \<open>
  \<^verbatim>\<open>IRefreshTokenType\<close> is \<^verbatim>\<open>{refreshToken}\<close> and \<^verbatim>\<open>ILoginResponse\<close> is
  \<^verbatim>\<open>{token, refreshToken}\<close>: the second extends the first by one field.
\<close>

record IRefreshTokenType =
  refreshToken :: jwt

record ILoginResponse = IRefreshTokenType +
  token :: jwt

record ICheckAccountExited =
  isExited :: bool

record IRegisterRequest =
  req_name :: string
  req_email :: string
  req_password :: string
  req_confirmPassword :: string

section \<open>userRepository\<close>

definition User_find :: "world \<Rightarrow> string + IUser list" where
  "User_find w = (case readFault w of Some ex \<Rightarrow> Inl ex | None \<Rightarrow> Inr (users w))"

definition User_findOne :: "(IUser \<Rightarrow> bool) \<Rightarrow> world \<Rightarrow> string + IUser option" where
  "User_findOne q w =
     (case readFault w of Some ex \<Rightarrow> Inl ex | None \<Rightarrow> Inr (find q (users w)))"

text \<open>\<^verbatim>\<open>new User(userData).save()\<close>: the document is appended to the collection.\<close>

definition User_save :: "IUser \<Rightarrow> world \<Rightarrow> (string + IUser) \<times> world" where
  "User_save doc w =
     (case writeFault w of
        Some ex \<Rightarrow> (Inl ex, w)
      | None \<Rightarrow> (Inr doc, w\<lparr>users := users w @ [doc]\<rparr>))"

fun update_first :: "('a \<Rightarrow> bool) \<Rightarrow> ('a \<Rightarrow> 'a) \<Rightarrow> 'a list \<Rightarrow> 'a list" where
  "update_first q f [] = []"
| "update_first q f (x # xs) = (if q x then f x # xs else x # update_first q f xs)"

text \<open>
  \<^verbatim>\<open>User.findByIdAndUpdate(id, update, { new: true })\<close>: the first document whose
  \<^verbatim>\<open>_id\<close> is \<open>id\<close> is updated and returned as it is after the update; \<^verbatim>\<open>null\<close>
  when there is none.
\<close>

definition User_findByIdAndUpdate ::
  "string \<Rightarrow> (IUser \<Rightarrow> IUser) \<Rightarrow> world \<Rightarrow> (string + IUser option) \<times> world" where
  "User_findByIdAndUpdate i upd w =
     (case writeFault w of
        Some ex \<Rightarrow> (Inl ex, w)
      | None \<Rightarrow>
          (case find (\<lambda>d. oid d = i) (users w) of
             None \<Rightarrow> (Inr None, w)
           | Some d \<Rightarrow>
               (Inr (Some (upd d)),
                w\<lparr>users := update_first (\<lambda>d. oid d = i) upd (users w)\<rparr>)))"

definition findAllAsync :: "world \<Rightarrow> string + IUser list" where
  "findAllAsync w = User_find w"

definition findByIdAsync :: "world \<Rightarrow> string \<Rightarrow> string + IUser option" where
  "findByIdAsync w i = User_findOne (\<lambda>d. IdUser d = i) w"

definition findByEmailAsync :: "world \<Rightarrow> string \<Rightarrow> string + IUser option" where
  "findByEmailAsync w em = User_findOne (\<lambda>d. email d = em) w"

definition createUserAsync :: "world \<Rightarrow> IUser \<Rightarrow> (string + IUser) \<times> world" where
  "createUserAsync w userData = User_save userData w"

definition updateUserAsync ::
  "world \<Rightarrow> string \<Rightarrow> (IUser \<Rightarrow> IUser) \<Rightarrow> (string + IUser option) \<times> world" where
  "updateUserAsync w i userData = User_findByIdAndUpdate i userData w"

text \<open>
  \<^verbatim>\<open>changePasswordAsync\<close> has no \<^verbatim>\<open>try\<close>: a rejection of the awaited
  \<^verbatim>\<open>bcrypt.hash(newPassword, 10)\<close> is the call's own rejection, before the store is
  touched.
\<close>

definition changePasswordAsync ::
  "bcrypt \<Rightarrow> string \<Rightarrow> world \<Rightarrow> string \<Rightarrow> string \<Rightarrow> (string + IUser option) \<times> world" where
  "changePasswordAsync bc entropy w i newPassword =
     (case bcrypt_hash_rounds bc newPassword 10 entropy of
        Inl ex \<Rightarrow> (Inl ex, w)
      | Inr hashPassword \<Rightarrow>
          User_findByIdAndUpdate i (\<lambda>d. d\<lparr>password := hashPassword\<rparr>) w)"

section \<open>authService\<close>

text \<open>
  Each operation is the body of its \<^verbatim>\<open>try\<close> block (\<open>_try\<close>: \<open>Inl\<close> is the
  exception that leaves it, from an awaited call of the store, of bcryptjs or of
  \<^verbatim>\<open>jwt.sign\<close>) and the \<^verbatim>\<open>catch\<close> around it.
\<close>

definition login_try ::
  "bcrypt \<Rightarrow> env \<Rightarrow> world \<Rightarrow> string \<Rightarrow> string \<Rightarrow> string + ILoginResponse ServiceResponse" where
  "login_try bc ev w em pw =
     (case findByEmailAsync w em of
        Inl ex \<Rightarrow> Inl ex
      | Inr None \<Rightarrow>
          Inr (new_ServiceResponse Failed ''Email or Password is not correct'' None
                 StatusCodes_UNPROCESSABLE_ENTITY)
      | Inr (Some user) \<Rightarrow>
          (case bcrypt_compare bc pw (password user) of
             Inl ex \<Rightarrow> Inl ex
           | Inr checkPassword \<Rightarrow>
               if \<not> checkPassword then
                 Inr (new_ServiceResponse Failed ''Email or Password is not correct'' None
                        StatusCodes_UNPROCESSABLE_ENTITY)
               else
                 (let pl = [(''id'', IdUser user)] in
                  case jwt_sign pl (or_default (JWT_SECRET ev) ''default_secret'') ''1d'' of
                    Inl ex \<Rightarrow> Inl ex
                  | Inr tok \<Rightarrow>
                      (case jwt_sign pl (or_default (JWT_SECRET ev) ''default_secret'') ''2d'' of
                         Inl ex \<Rightarrow> Inl ex
                       | Inr rtok \<Rightarrow>
                           Inr (new_ServiceResponse Success ''Login successfully''
                                  (Some \<lparr>refreshToken = rtok, token = tok\<rparr>)
                                  StatusCodes_OK)))))"

definition login ::
  "bcrypt \<Rightarrow> env \<Rightarrow> world \<Rightarrow> string \<Rightarrow> string \<Rightarrow> ILoginResponse ServiceResponse \<times> world" where
  "login bc ev w em pw =
     (case login_try bc ev w em pw of
        Inr r \<Rightarrow> (r, w)
      | Inl ex \<Rightarrow>
          (let errorMessage = ''Error during login: '' @ ex in
           (new_ServiceResponse Failed errorMessage None StatusCodes_INTERNAL_SERVER_ERROR,
            logger_error errorMessage w)))"

definition loginWeb_try ::
  "bcrypt \<Rightarrow> env \<Rightarrow> world \<Rightarrow> string \<Rightarrow> string \<Rightarrow> string + ILoginResponse ServiceResponse" where
  "loginWeb_try bc ev w em pw =
     (case User_findOne (\<lambda>d. email d = em) w of
        Inl ex \<Rightarrow> Inl ex
      | Inr None \<Rightarrow>
          Inr (new_ServiceResponse Failed ''Email or Password is not correct'' None
                 StatusCodes_UNPROCESSABLE_ENTITY)
      | Inr (Some user) \<Rightarrow>
          if Role user \<noteq> ''client-manager'' then
            Inr (new_ServiceResponse Failed ''Email or Password is not correct'' None
                   StatusCodes_UNPROCESSABLE_ENTITY)
          else
            (case bcrypt_compare bc pw (password user) of
               Inl ex \<Rightarrow> Inl ex
             | Inr validPass \<Rightarrow>
                 if \<not> validPass then
                   Inr (new_ServiceResponse Failed ''Email or Password is not correct'' None
                          StatusCodes_UNPROCESSABLE_ENTITY)
                 else
                   (case jwt_sign [(''id'', IdUser user)]
                           (or_default (TOKEN_SECRET ev) ''default_secret'') ''1d'' of
                      Inl ex \<Rightarrow> Inl ex
                    | Inr tok \<Rightarrow>
                        (case jwt_sign [(''id'', IdUser user)]
                                (or_default (TOKEN_SECRET ev) ''default_secret'') ''2d'' of
                           Inl ex \<Rightarrow> Inl ex
                         | Inr rtok \<Rightarrow>
                             Inr (new_ServiceResponse Success ''Login successfully''
                                    (Some \<lparr>refreshToken = rtok, token = tok\<rparr>)
                                    StatusCodes_OK)))))"

definition loginWeb ::
  "bcrypt \<Rightarrow> env \<Rightarrow> world \<Rightarrow> string \<Rightarrow> string \<Rightarrow> ILoginResponse ServiceResponse \<times> world" where
  "loginWeb bc ev w em pw =
     (case loginWeb_try bc ev w em pw of
        Inr r \<Rightarrow> (r, w)
      | Inl ex \<Rightarrow>
          (let errorMessage = ''Error during login: '' @ ex in
           (new_ServiceResponse Failed errorMessage None StatusCodes_INTERNAL_SERVER_ERROR,
            logger_error errorMessage w)))"

text \<open>
  \<^verbatim>\<open>register\<close>. The calls of \<^verbatim>\<open>genSalt\<close> and \<^verbatim>\<open>hash\<close> are awaited inside the
  \<^verbatim>\<open>try\<close>; the call of \<^verbatim>\<open>createUserAsync\<close> is not awaited: the payload is the promise,
  and a rejected save does not reach the \<^verbatim>\<open>catch\<close>. The environment supplies \<open>ids\<close>
  (the \<^verbatim>\<open>_id\<close> and \<^verbatim>\<open>IdUser\<close> the model gives a new document, which the object passed
  to it does not set), \<open>now1\<close> and \<open>now2\<close> (the two calls of \<^verbatim>\<open>new Date()\<close>, for
  \<^verbatim>\<open>createAt\<close> and for \<^verbatim>\<open>updatedAt\<close>) and \<open>entropy\<close> (the random bytes of
  \<^verbatim>\<open>genSalt\<close>).
\<close>

definition register_try ::
  "bcrypt \<Rightarrow> string \<times> string \<Rightarrow> nat \<Rightarrow> nat \<Rightarrow> string \<Rightarrow> world \<Rightarrow> IRegisterRequest
     \<Rightarrow> string + (IUser promise ServiceResponse \<times> world)" where
  "register_try bc ids now1 now2 entropy w req =
     (let nm = req_name req; em = req_email req; pw = req_password req;
          confirmPassword = req_confirmPassword req
      in case findByEmailAsync w em of
           Inl ex \<Rightarrow> Inl ex
         | Inr (Some checkEmailExist) \<Rightarrow>
             Inr (new_ServiceResponse Failed ''Email is already in use'' None
                    StatusCodes_UNPROCESSABLE_ENTITY, w)
         | Inr None \<Rightarrow>
             if pw \<noteq> confirmPassword then
               Inr (new_ServiceResponse Failed ''Passwords do not match'' None
                      StatusCodes_UNPROCESSABLE_ENTITY, w)
             else
               (case bcrypt_genSalt bc 10 entropy of
                  Inl ex \<Rightarrow> Inl ex
                | Inr salt \<Rightarrow>
                    (case bcrypt_hash bc pw salt of
                       Inl ex \<Rightarrow> Inl ex
                     | Inr hashPassword \<Rightarrow>
                         (let (newUser, w') = createUserAsync w
                                \<lparr>oid = fst ids, IdUser = snd ids,
                                 name = nm, email = em, password = hashPassword,
                                 Role = ''client-user'', phoneNumber = '''', Date = '''',
                                 Gender = '''', Avatar = '''', age = '''',
                                 createAt = now1, updatedAt = now2, IdDoctor = ''''\<rparr>
                          in Inr (new_ServiceResponse Success ''User registered successfully''
                                    (Some (Promise newUser)) StatusCodes_OK, w')))))"

definition register ::
  "bcrypt \<Rightarrow> string \<times> string \<Rightarrow> nat \<Rightarrow> nat \<Rightarrow> string \<Rightarrow> world \<Rightarrow> IRegisterRequest
     \<Rightarrow> IUser promise ServiceResponse \<times> world" where
  "register bc ids now1 now2 entropy w req =
     (case register_try bc ids now1 now2 entropy w req of
        Inr rw \<Rightarrow> rw
      | Inl ex \<Rightarrow>
          (let errorMessage = ''Error during registration: '' @ ex in
           (new_ServiceResponse Failed errorMessage None StatusCodes_INTERNAL_SERVER_ERROR,
            logger_error errorMessage w)))"

definition checkEmailExist :: "world \<Rightarrow> string \<Rightarrow> ICheckAccountExited ServiceResponse \<times> world" where
  "checkEmailExist w em =
     (case User_findOne (\<lambda>d. email d = em) w of
        Inr (Some found) \<Rightarrow>
          (new_ServiceResponse Success ''Email exists'' (Some \<lparr>isExited = True\<rparr>)
             StatusCodes_OK, w)
      | Inr None \<Rightarrow>
          (new_ServiceResponse Success ''Email does not exist'' (Some \<lparr>isExited = False\<rparr>)
             StatusCodes_OK, w)
      | Inl ex \<Rightarrow>
          (let errorMessage = ''Error checking email existence: '' @ ex in
           (new_ServiceResponse Failed errorMessage None StatusCodes_INTERNAL_SERVER_ERROR,
            logger_error errorMessage w)))"

definition generateRefreshToken ::
  "env \<Rightarrow> world \<Rightarrow> string \<Rightarrow> IRefreshTokenType ServiceResponse \<times> world" where
  "generateRefreshToken ev w userId =
     (case jwt_sign [(''userId'', userId)]
             (or_default (TOKEN_SECRET ev) ''default_secret'') ''7d'' of
        Inr rtok \<Rightarrow>
          (new_ServiceResponse Success ''Refresh token generated successfully''
             (Some \<lparr>refreshToken = rtok\<rparr>) StatusCodes_OK, w)
      | Inl ex \<Rightarrow>
          (let errorMessage = ''Error generating refresh token: '' @ ex in
           (new_ServiceResponse Failed errorMessage None StatusCodes_INTERNAL_SERVER_ERROR,
            logger_error errorMessage w)))"

section \<open>The envelope invariant and an example world\<close>

text \<open>
  The invariant the data model states for a Service Result Envelope: a failed one carries
  no payload and a 4xx or 5xx code, a successful one a 2xx code.
\<close>

definition envelope_invariant :: "'a ServiceResponse \<Rightarrow> bool" where
  "envelope_invariant r =
     ((status r = Failed \<longrightarrow>
         responseObject r = None \<and> 400 \<le> statusCode r \<and> statusCode r < 600) \<and>
      (status r = Success \<longrightarrow> 200 \<le> statusCode r \<and> statusCode r < 300))"

text \<open>
  A small stand-in for bcryptjs, some accounts and an environment with two different
  secrets, on which the theorems below are instantiated. The stand-in's hash is the salt,
  a dot and the reversed input, and its verification rejects a stored string without a
  dot as malformed; it is not bcrypt, and no general theorem depends on it.
\<close>

definition toy_bcrypt :: bcrypt where
  "toy_bcrypt =
     \<lparr>bcrypt_genSalt = (\<lambda>rounds entropy. Inr (replicate rounds (CHR ''$'') @ entropy)),
      bcrypt_hash = (\<lambda>s salt. Inr (salt @ CHR ''.'' # rev s)),
      bcrypt_compare =
        (\<lambda>s h. if CHR ''.'' \<notin> set h then Inl ''Invalid salt version''
               else Inr (length s < length h \<and>
                         drop (length h - Suc (length s)) h = CHR ''.'' # rev s))\<rparr>"

definition demo_env :: env where
  "demo_env = \<lparr>JWT_SECRET = Some ''jwt-key'', TOKEN_SECRET = Some ''web-key''\<rparr>"

definition alice :: IUser where
  "alice =
     \<lparr>oid = ''65a1'', IdUser = ''u-1'', name = ''Alice'', email = ''alice@example.com'',
      password = ''$$salt.321terces'', Role = ''client-manager'', phoneNumber = '''',
      Date = '''', Gender = '''', Avatar = '''', age = '''', createAt = 1, updatedAt = 1,
      IdDoctor = ''''\<rparr>"

definition bob :: IUser where
  "bob =
     \<lparr>oid = ''65a2'', IdUser = ''u-2'', name = ''Bob'', email = ''bob@example.com'',
      password = ''$$pepper.drowssap'', Role = ''client-user'', phoneNumber = '''',
      Date = '''', Gender = '''', Avatar = '''', age = '''', createAt = 2, updatedAt = 2,
      IdDoctor = ''''\<rparr>"

text \<open>An account whose stored password is not a hash: verification against it rejects.\<close>

definition dave :: IUser where
  "dave =
     \<lparr>oid = ''65a4'', IdUser = ''u-4'', name = ''Dave'', email = ''dave@example.com'',
      password = ''imported-plaintext'', Role = ''client-manager'', phoneNumber = '''',
      Date = '''', Gender = '''', Avatar = '''', age = '''', createAt = 4, updatedAt = 4,
      IdDoctor = ''''\<rparr>"

definition demo_world :: world where
  "demo_world = \<lparr>users = [alice, bob], readFault = None, writeFault = None, errorLog = []\<rparr>"

definition down_world :: world where
  "down_world = demo_world\<lparr>readFault := Some ''ECONNREFUSED''\<rparr>"

definition legacy_world :: world where
  "legacy_world = \<lparr>users = [dave], readFault = None, writeFault = None, errorLog = []\<rparr>"

definition duplicate_request :: IRegisterRequest where
  "duplicate_request =
     \<lparr>req_name = ''Mallory'', req_email = ''alice@example.com'',
      req_password = ''letmein'', req_confirmPassword = ''letmeni''\<rparr>"

definition mismatch_request :: IRegisterRequest where
  "mismatch_request =
     \<lparr>req_name = ''Carol'', req_email = ''carol@example.com'',
      req_password = ''letmein'', req_confirmPassword = ''letmeni''\<rparr>"

section \<open>Lemmas about the model\<close>

lemmas response_defs =
  new_ServiceResponse_def StatusCodes_OK_def StatusCodes_UNPROCESSABLE_ENTITY_def
  StatusCodes_INTERNAL_SERVER_ERROR_def

lemmas demo_defs = toy_bcrypt_def demo_env_def demo_world_def alice_def bob_def

subsection \<open>Lookups\<close>

lemma find_absent: "x \<notin> f ` set xs \<Longrightarrow> find (\<lambda>d. f d = x) xs = None"
  by (induction xs) auto

lemma find_present: "find (\<lambda>d. f d = x) xs = Some u \<Longrightarrow> x \<in> f ` set xs"
  by (induction xs) (auto split: if_splits)

lemma find_member: "x \<in> f ` set xs \<Longrightarrow> \<exists>u. find (\<lambda>d. f d = x) xs = Some u"
  by (induction xs) auto

lemma find_distinct_email:
  "distinct (map email us) \<Longrightarrow> u \<in> set us \<Longrightarrow> find (\<lambda>d. email d = email u) us = Some u"
  by (induction us) (auto simp: image_iff)

lemma find_update_first:
  "find q xs = Some d \<Longrightarrow> q (f d) \<Longrightarrow> find q (update_first q f xs) = Some (f d)"
  by (induction xs) (auto split: if_splits)

lemma find_append_absent:
  "find q xs = None \<Longrightarrow> find q (xs @ ys) = find q ys"
  by (induction xs) (auto split: if_splits)

subsection \<open>Signing never throws: the default keeps the secret non-empty\<close>

lemma or_default_nonempty [simp]: "d \<noteq> [] \<Longrightarrow> or_default v d \<noteq> []"
  by (simp add: or_default_def split: option.splits)

lemma jwt_sign_default [simp]:
  "jwt_sign pl (or_default v ''default_secret'') e =
     Inr (Jwt pl (or_default v ''default_secret'') e)"
  by (simp add: jwt_sign_def)

subsection \<open>Each operation, case by case\<close>

lemma login_fault:
  "readFault w = Some ex \<Longrightarrow>
   login bc ev w em pw =
     (\<lparr>status = Failed, message = ''Error during login: '' @ ex,
       responseObject = None, statusCode = 500\<rparr>,
      logger_error (''Error during login: '' @ ex) w)"
  by (simp add: login_def login_try_def findByEmailAsync_def User_findOne_def response_defs
      Let_def)

lemma login_absent:
  "readFault w = None \<Longrightarrow> find (\<lambda>d. email d = em) (users w) = None \<Longrightarrow>
   login bc ev w em pw =
     (\<lparr>status = Failed, message = ''Email or Password is not correct'',
       responseObject = None, statusCode = 422\<rparr>, w)"
  by (simp add: login_def login_try_def findByEmailAsync_def User_findOne_def response_defs)

lemma login_compare_rejects:
  "readFault w = None \<Longrightarrow> find (\<lambda>d. email d = em) (users w) = Some u \<Longrightarrow>
   bcrypt_compare bc pw (password u) = Inl ex \<Longrightarrow>
   login bc ev w em pw =
     (\<lparr>status = Failed, message = ''Error during login: '' @ ex,
       responseObject = None, statusCode = 500\<rparr>,
      logger_error (''Error during login: '' @ ex) w)"
  by (simp add: login_def login_try_def findByEmailAsync_def User_findOne_def response_defs
      Let_def)

lemma login_denied:
  "readFault w = None \<Longrightarrow> find (\<lambda>d. email d = em) (users w) = Some u \<Longrightarrow>
   bcrypt_compare bc pw (password u) = Inr False \<Longrightarrow>
   login bc ev w em pw =
     (\<lparr>status = Failed, message = ''Email or Password is not correct'',
       responseObject = None, statusCode = 422\<rparr>, w)"
  by (simp add: login_def login_try_def findByEmailAsync_def User_findOne_def response_defs)

lemma login_accepted:
  "readFault w = None \<Longrightarrow> find (\<lambda>d. email d = em) (users w) = Some u \<Longrightarrow>
   bcrypt_compare bc pw (password u) = Inr True \<Longrightarrow>
   login bc ev w em pw =
     (\<lparr>status = Success, message = ''Login successfully'',
       responseObject = Some
         \<lparr>refreshToken =
            Jwt [(''id'', IdUser u)] (or_default (JWT_SECRET ev) ''default_secret'') ''2d'',
          token =
            Jwt [(''id'', IdUser u)] (or_default (JWT_SECRET ev) ''default_secret'') ''1d''\<rparr>,
       statusCode = 200\<rparr>, w)"
  by (simp add: login_def login_try_def findByEmailAsync_def User_findOne_def response_defs
      Let_def)

lemma loginWeb_fault:
  "readFault w = Some ex \<Longrightarrow>
   loginWeb bc ev w em pw =
     (\<lparr>status = Failed, message = ''Error during login: '' @ ex,
       responseObject = None, statusCode = 500\<rparr>,
      logger_error (''Error during login: '' @ ex) w)"
  by (simp add: loginWeb_def loginWeb_try_def User_findOne_def response_defs Let_def)

lemma loginWeb_absent:
  "readFault w = None \<Longrightarrow> find (\<lambda>d. email d = em) (users w) = None \<Longrightarrow>
   loginWeb bc ev w em pw =
     (\<lparr>status = Failed, message = ''Email or Password is not correct'',
       responseObject = None, statusCode = 422\<rparr>, w)"
  by (simp add: loginWeb_def loginWeb_try_def User_findOne_def response_defs)

lemma loginWeb_not_manager:
  "readFault w = None \<Longrightarrow> find (\<lambda>d. email d = em) (users w) = Some u \<Longrightarrow>
   Role u \<noteq> ''client-manager'' \<Longrightarrow>
   loginWeb bc ev w em pw =
     (\<lparr>status = Failed, message = ''Email or Password is not correct'',
       responseObject = None, statusCode = 422\<rparr>, w)"
  by (simp add: loginWeb_def loginWeb_try_def User_findOne_def response_defs)

lemma loginWeb_compare_rejects:
  "readFault w = None \<Longrightarrow> find (\<lambda>d. email d = em) (users w) = Some u \<Longrightarrow>
   Role u = ''client-manager'' \<Longrightarrow> bcrypt_compare bc pw (password u) = Inl ex \<Longrightarrow>
   loginWeb bc ev w em pw =
     (\<lparr>status = Failed, message = ''Error during login: '' @ ex,
       responseObject = None, statusCode = 500\<rparr>,
      logger_error (''Error during login: '' @ ex) w)"
  by (simp add: loginWeb_def loginWeb_try_def User_findOne_def response_defs Let_def)

lemma loginWeb_denied:
  "readFault w = None \<Longrightarrow> find (\<lambda>d. email d = em) (users w) = Some u \<Longrightarrow>
   bcrypt_compare bc pw (password u) = Inr False \<Longrightarrow>
   loginWeb bc ev w em pw =
     (\<lparr>status = Failed, message = ''Email or Password is not correct'',
       responseObject = None, statusCode = 422\<rparr>, w)"
  by (simp add: loginWeb_def loginWeb_try_def User_findOne_def response_defs)

lemma loginWeb_accepted:
  "readFault w = None \<Longrightarrow> find (\<lambda>d. email d = em) (users w) = Some u \<Longrightarrow>
   Role u = ''client-manager'' \<Longrightarrow> bcrypt_compare bc pw (password u) = Inr True \<Longrightarrow>
   loginWeb bc ev w em pw =
     (\<lparr>status = Success, message = ''Login successfully'',
       responseObject = Some
         \<lparr>refreshToken =
            Jwt [(''id'', IdUser u)] (or_default (TOKEN_SECRET ev) ''default_secret'') ''2d'',
          token =
            Jwt [(''id'', IdUser u)] (or_default (TOKEN_SECRET ev) ''default_secret'') ''1d''\<rparr>,
       statusCode = 200\<rparr>, w)"
  by (simp add: loginWeb_def loginWeb_try_def User_findOne_def response_defs Let_def)

lemma loginWeb_success_cases:
  assumes "status (fst (loginWeb bc ev w em pw)) = Success"
  shows "\<exists>u. readFault w = None \<and> find (\<lambda>d. email d = em) (users w) = Some u \<and>
             Role u = ''client-manager'' \<and> bcrypt_compare bc pw (password u) = Inr True"
proof (cases "readFault w")
  case (Some ex)
  with assms show ?thesis
    by (simp add: loginWeb_fault)
next
  case None
  show ?thesis
  proof (cases "find (\<lambda>d. email d = em) (users w)")
    case nf: None
    with None assms show ?thesis
      by (simp add: loginWeb_absent)
  next
    case (Some u)
    show ?thesis
    proof (cases "Role u = ''client-manager''")
      case False
      with None Some assms show ?thesis
        by (simp add: loginWeb_not_manager)
    next
      case True
      show ?thesis
      proof (cases "bcrypt_compare bc pw (password u)")
        case (Inl ex)
        with None Some True assms show ?thesis
          by (simp add: loginWeb_compare_rejects)
      next
        case (Inr ok)
        with None Some True assms show ?thesis
          by (cases ok) (simp_all add: loginWeb_denied)
      qed
    qed
  qed
qed

lemma register_fault:
  "readFault w = Some ex \<Longrightarrow>
   register bc ids now1 now2 entropy w req =
     (\<lparr>status = Failed, message = ''Error during registration: '' @ ex,
       responseObject = None, statusCode = 500\<rparr>,
      logger_error (''Error during registration: '' @ ex) w)"
  by (simp add: register_def register_try_def findByEmailAsync_def User_findOne_def
      response_defs Let_def)

lemma register_found:
  "readFault w = None \<Longrightarrow> find (\<lambda>d. email d = req_email req) (users w) = Some u \<Longrightarrow>
   register bc ids now1 now2 entropy w req =
     (\<lparr>status = Failed, message = ''Email is already in use'',
       responseObject = None, statusCode = 422\<rparr>, w)"
  by (simp add: register_def register_try_def findByEmailAsync_def User_findOne_def
      response_defs Let_def)

lemma register_mismatch:
  "readFault w = None \<Longrightarrow> find (\<lambda>d. email d = req_email req) (users w) = None \<Longrightarrow>
   req_password req \<noteq> req_confirmPassword req \<Longrightarrow>
   register bc ids now1 now2 entropy w req =
     (\<lparr>status = Failed, message = ''Passwords do not match'',
       responseObject = None, statusCode = 422\<rparr>, w)"
  by (simp add: register_def register_try_def findByEmailAsync_def User_findOne_def
      response_defs Let_def)

lemma register_hashing_rejects:
  "readFault w = None \<Longrightarrow> find (\<lambda>d. email d = req_email req) (users w) = None \<Longrightarrow>
   req_password req = req_confirmPassword req \<Longrightarrow>
   bcrypt_hash_rounds bc (req_password req) 10 entropy = Inl ex \<Longrightarrow>
   register bc ids now1 now2 entropy w req =
     (\<lparr>status = Failed, message = ''Error during registration: '' @ ex,
       responseObject = None, statusCode = 500\<rparr>,
      logger_error (''Error during registration: '' @ ex) w)"
  by (auto simp add: register_def register_try_def findByEmailAsync_def User_findOne_def
      bcrypt_hash_rounds_def response_defs Let_def split: sum.splits)

text \<open>
  The remaining case of \<^verbatim>\<open>register\<close>: the response is Success whatever becomes of the
  save, and the document joins the collection when the save is not rejected.
\<close>

lemma register_created:
  assumes "readFault w = None" and "find (\<lambda>d. email d = req_email req) (users w) = None"
    and "req_password req = req_confirmPassword req"
    and "bcrypt_hash_rounds bc (req_password req) 10 entropy = Inr h"
  shows "\<exists>p. fst (register bc ids now1 now2 entropy w req) =
           \<lparr>status = Success, message = ''User registered successfully'',
            responseObject = Some p, statusCode = 200\<rparr>"
    and "writeFault w = None \<Longrightarrow>
         snd (register bc ids now1 now2 entropy w req) =
           w\<lparr>users := users w @
             [\<lparr>oid = fst ids, IdUser = snd ids, name = req_name req, email = req_email req,
               password = h, Role = ''client-user'', phoneNumber = [], Date = [], Gender = [],
               Avatar = [], age = [], createAt = now1, updatedAt = now2, IdDoctor = []\<rparr>]\<rparr>"
    and "writeFault w \<noteq> None \<Longrightarrow> snd (register bc ids now1 now2 entropy w req) = w"
  using assms
  by (auto simp add: register_def register_try_def findByEmailAsync_def User_findOne_def
      bcrypt_hash_rounds_def createUserAsync_def User_save_def response_defs Let_def
      split: option.splits sum.splits)

text \<open>
  Sequential registrations keep e-mail addresses unique: the hypothesis of the claim about
  \<^verbatim>\<open>login\<close> below is an invariant of \<^verbatim>\<open>register\<close>.
\<close>

lemma register_keeps_emails_distinct:
  assumes "distinct (map email (users w))"
  shows "distinct (map email (users (snd (register bc ids now1 now2 entropy w req))))"
proof (cases "readFault w")
  case (Some ex)
  with assms show ?thesis
    by (simp add: register_fault logger_error_def)
next
  case None
  show ?thesis
  proof (cases "find (\<lambda>d. email d = req_email req) (users w)")
    case (Some u)
    with None assms show ?thesis
      by (simp add: register_found)
  next
    case nf: None
    then have fresh: "req_email req \<notin> email ` set (users w)"
      by (auto simp: find_None_iff)
    show ?thesis
    proof (cases "req_password req = req_confirmPassword req")
      case False
      with None nf assms show ?thesis
        by (simp add: register_mismatch)
    next
      case True
      show ?thesis
      proof (cases "bcrypt_hash_rounds bc (req_password req) 10 entropy")
        case (Inl ex)
        from register_hashing_rejects [OF None nf True Inl] assms show ?thesis
          by (simp add: logger_error_def)
      next
        case (Inr h)
        show ?thesis
        proof (cases "writeFault w")
          case wf: None
          from register_created(2) [OF None nf True Inr wf, of ids now1 now2]
          show ?thesis using assms fresh by simp
        next
          case (Some ex)
          then have "writeFault w \<noteq> None" by simp
          from register_created(3) [OF None nf True Inr this, of ids now1 now2]
          show ?thesis using assms by simp
        qed
      qed
    qed
  qed
qed

lemma checkEmailExist_cases:
  "checkEmailExist w em =
     (case readFault w of
        Some ex \<Rightarrow>
          (\<lparr>status = Failed, message = ''Error checking email existence: '' @ ex,
            responseObject = None, statusCode = 500\<rparr>,
           logger_error (''Error checking email existence: '' @ ex) w)
      | None \<Rightarrow>
          (\<lparr>status = Success,
            message = (if em \<in> email ` set (users w) then ''Email exists''
                       else ''Email does not exist''),
            responseObject = Some \<lparr>isExited = (em \<in> email ` set (users w))\<rparr>,
            statusCode = 200\<rparr>, w))"
proof (cases "readFault w")
  case (Some ex)
  then show ?thesis
    by (simp add: checkEmailExist_def User_findOne_def response_defs Let_def)
next
  case None
  show ?thesis
  proof (cases "find (\<lambda>d. email d = em) (users w)")
    case nf: None
    then have "em \<notin> email ` set (users w)"
      by (auto simp: find_None_iff)
    with None nf show ?thesis
      by (simp add: checkEmailExist_def User_findOne_def response_defs)
  next
    case (Some u)
    then have "em \<in> email ` set (users w)"
      by (rule find_present)
    with None Some show ?thesis
      by (simp add: checkEmailExist_def User_findOne_def response_defs)
  qed
qed

lemma generateRefreshToken_cases:
  "generateRefreshToken ev w userId =
     (\<lparr>status = Success, message = ''Refresh token generated successfully'',
       responseObject = Some
         \<lparr>refreshToken =
            Jwt [(''userId'', userId)] (or_default (TOKEN_SECRET ev) ''default_secret'') ''7d''\<rparr>,
       statusCode = 200\<rparr>, w)"
  by (simp add: generateRefreshToken_def response_defs)

lemma toy_hash_not_identity: "\<forall>s salt h. bcrypt_hash toy_bcrypt s salt = Inr h \<longrightarrow> h \<noteq> s"
proof (intro allI impI notI)
  fix s salt h :: string
  assume "bcrypt_hash toy_bcrypt s salt = Inr h" and "h = s"
  then have "length (salt @ CHR ''.'' # rev s) = length s"
    by (simp add: toy_bcrypt_def)
  then show False by simp
qed

text \<open>
  Registration followed by \<^verbatim>\<open>login\<close> with the same password, for a bcrypt that verifies
  what it hashed: the tokens carry the \<^verbatim>\<open>IdUser\<close> the model gave the new document.
\<close>

lemma register_then_login:
  assumes "readFault w = None" and "writeFault w = None"
    and "req_email req \<notin> email ` set (users w)"
    and "req_password req = req_confirmPassword req"
    and "bcrypt_hash_rounds bc (req_password req) 10 entropy = Inr h"
    and "bcrypt_compare bc (req_password req) h = Inr True"
  shows "fst (login bc ev (snd (register bc ids now1 now2 entropy w req))
                (req_email req) (req_password req)) =
    \<lparr>status = Success, message = ''Login successfully'',
      responseObject = Some
        \<lparr>refreshToken =
           Jwt [(''id'', snd ids)] (or_default (JWT_SECRET ev) ''default_secret'') ''2d'',
         token =
           Jwt [(''id'', snd ids)] (or_default (JWT_SECRET ev) ''default_secret'') ''1d''\<rparr>,
      statusCode = 200\<rparr>"
proof -
  from assms(3) have nf: "find (\<lambda>d. email d = req_email req) (users w) = None"
    by (rule find_absent)
  let ?doc = "\<lparr>oid = fst ids, IdUser = snd ids, name = req_name req, email = req_email req,
               password = h, Role = ''client-user'', phoneNumber = [], Date = [], Gender = [],
               Avatar = [], age = [], createAt = now1, updatedAt = now2, IdDoctor = []\<rparr>"
  have w': "snd (register bc ids now1 now2 entropy w req) = w\<lparr>users := users w @ [?doc]\<rparr>"
    by (rule register_created(2) [OF assms(1) nf assms(4) assms(5) assms(2)])
  have "find (\<lambda>d. email d = req_email req) (users w @ [?doc]) = Some ?doc"
    by (simp add: find_append_absent [OF nf])
  with assms(1,6) show ?thesis
    by (simp add: w' login_accepted [where u = ?doc])
qed

section \<open>The claims\<close>

text \<open>
  C1. For every registered user, \<^verbatim>\<open>login\<close> with that user's e-mail address and a
  password that \<^verbatim>\<open>bcrypt.compare\<close> accepts against the user's stored hash returns
  Success with status 200 and a payload of an access token (\<^verbatim>\<open>expiresIn\<close> 1d) and a
  refresh token (2d), both signed with \<^verbatim>\<open>JWT_SECRET\<close> (or its default) and both
  carrying the user's \<^verbatim>\<open>IdUser\<close> as \<^verbatim>\<open>id\<close>. The world is left as it was. The store
  answers the query (no fault) and holds each e-mail address once, as the data model
  requires and as \<open>register_keeps_emails_distinct\<close> maintains.
\<close>

theorem login_correct_password:
  assumes "u \<in> set (users w)" and "distinct (map email (users w))"
    and "readFault w = None" and "bcrypt_compare bc pw (password u) = Inr True"
  shows "login bc ev w (email u) pw =
    (\<lparr>status = Success, message = ''Login successfully'',
      responseObject = Some
        \<lparr>refreshToken =
           Jwt [(''id'', IdUser u)] (or_default (JWT_SECRET ev) ''default_secret'') ''2d'',
         token =
           Jwt [(''id'', IdUser u)] (or_default (JWT_SECRET ev) ''default_secret'') ''1d''\<rparr>,
      statusCode = 200\<rparr>, w)"
proof -
  from assms(1,2) have "find (\<lambda>d. email d = email u) (users w) = Some u"
    by (rule find_distinct_email [rotated])
  with assms(3,4) show ?thesis
    by (simp add: login_accepted)
qed

theorem login_correct_password_witness:
  "alice \<in> set (users demo_world) \<and> distinct (map email (users demo_world)) \<and>
   readFault demo_world = None \<and>
   bcrypt_compare toy_bcrypt ''secret123'' (password alice) = Inr True \<and>
   login toy_bcrypt demo_env demo_world ''alice@example.com'' ''secret123'' =
     (\<lparr>status = Success, message = ''Login successfully'',
       responseObject = Some
         \<lparr>refreshToken = Jwt [(''id'', ''u-1'')] ''jwt-key'' ''2d'',
          token = Jwt [(''id'', ''u-1'')] ''jwt-key'' ''1d''\<rparr>,
       statusCode = 200\<rparr>, demo_world)"
proof -
  have h1: "alice \<in> set (users demo_world)" by (simp add: demo_world_def)
  have h2: "distinct (map email (users demo_world))" by (simp add: demo_defs)
  have h3: "readFault demo_world = None" by (simp add: demo_world_def)
  have h4: "bcrypt_compare toy_bcrypt ''secret123'' (password alice) = Inr True"
    by (simp add: demo_defs)
  show ?thesis
    using h1 h2 h3 h4 login_correct_password [OF h1 h2 h3 h4, of demo_env]
    by (simp add: alice_def demo_env_def or_default_def)
qed

text \<open>
  C2. In every world whose store answers the query, \<^verbatim>\<open>login\<close> with an e-mail address
  that has no account and \<^verbatim>\<open>login\<close> with an existing address and a password for which
  \<^verbatim>\<open>bcrypt.compare\<close> resolves to false return the same envelope: Failed, status 422,
  message "Email or Password is not correct", no payload; nothing is logged.
\<close>

theorem login_failures_indistinguishable:
  "(readFault w = None \<and> em \<notin> email ` set (users w) \<longrightarrow>
      login bc ev w em pw =
        (\<lparr>status = Failed, message = ''Email or Password is not correct'',
          responseObject = None, statusCode = 422\<rparr>, w)) \<and>
   (readFault w = None \<and> find (\<lambda>d. email d = em') (users w) = Some u \<and>
    bcrypt_compare bc pw' (password u) = Inr False \<longrightarrow>
      login bc ev w em' pw' =
        (\<lparr>status = Failed, message = ''Email or Password is not correct'',
          responseObject = None, statusCode = 422\<rparr>, w))"
proof (intro conjI impI)
  assume "readFault w = None \<and> em \<notin> email ` set (users w)"
  then show "login bc ev w em pw =
        (\<lparr>status = Failed, message = ''Email or Password is not correct'',
          responseObject = None, statusCode = 422\<rparr>, w)"
    by (simp add: login_absent find_absent)
next
  assume "readFault w = None \<and> find (\<lambda>d. email d = em') (users w) = Some u \<and>
    bcrypt_compare bc pw' (password u) = Inr False"
  then show "login bc ev w em' pw' =
        (\<lparr>status = Failed, message = ''Email or Password is not correct'',
          responseObject = None, statusCode = 422\<rparr>, w)"
    by (simp add: login_denied)
qed

theorem login_failures_indistinguishable_witness:
  "readFault demo_world = None \<and> ''nobody@example.com'' \<notin> email ` set (users demo_world) \<and>
   find (\<lambda>d. email d = ''bob@example.com'') (users demo_world) = Some bob \<and>
   bcrypt_compare toy_bcrypt ''guess'' (password bob) = Inr False \<and>
   login toy_bcrypt demo_env demo_world ''nobody@example.com'' ''guess'' =
     (\<lparr>status = Failed, message = ''Email or Password is not correct'',
       responseObject = None, statusCode = 422\<rparr>, demo_world) \<and>
   login toy_bcrypt demo_env demo_world ''bob@example.com'' ''guess'' =
     (\<lparr>status = Failed, message = ''Email or Password is not correct'',
       responseObject = None, statusCode = 422\<rparr>, demo_world)"
proof -
  have h1: "readFault demo_world = None" by (simp add: demo_world_def)
  have h2: "''nobody@example.com'' \<notin> email ` set (users demo_world)" by (simp add: demo_defs)
  have h3: "find (\<lambda>d. email d = ''bob@example.com'') (users demo_world) = Some bob"
    by (simp add: demo_defs)
  have h4: "bcrypt_compare toy_bcrypt ''guess'' (password bob) = Inr False"
    by (simp add: demo_defs)
  note t = login_failures_indistinguishable [where w = demo_world
      and em = "''nobody@example.com''" and bc = toy_bcrypt and ev = demo_env
      and pw = "''guess''" and em' = "''bob@example.com''" and u = bob and pw' = "''guess''"]
  from h1 h2 t have a: "login toy_bcrypt demo_env demo_world ''nobody@example.com'' ''guess'' =
     (\<lparr>status = Failed, message = ''Email or Password is not correct'',
       responseObject = None, statusCode = 422\<rparr>, demo_world)" by blast
  from h1 h3 h4 t have b: "login toy_bcrypt demo_env demo_world ''bob@example.com'' ''guess'' =
     (\<lparr>status = Failed, message = ''Email or Password is not correct'',
       responseObject = None, statusCode = 422\<rparr>, demo_world)" by blast
  from h1 h2 h3 h4 a b show ?thesis by (intro conjI)
qed

text \<open>
  C3. \<^verbatim>\<open>loginWeb\<close> returns Success only when the account found for the e-mail address
  has the role \<^verbatim>\<open>client-manager\<close>. With a password that \<^verbatim>\<open>bcrypt.compare\<close> accepts and
  any other role it returns Failed, status 422, "Email or Password is not correct": the
  very envelope it returns for a password that does not verify and for an unknown
  address.
\<close>

theorem loginWeb_manager_only:
  "(status (fst (loginWeb bc ev w em pw)) = Success \<longrightarrow>
      (\<exists>u. find (\<lambda>d. email d = em) (users w) = Some u \<and> Role u = ''client-manager'')) \<and>
   (readFault w = None \<and> find (\<lambda>d. email d = em) (users w) = Some u \<and>
    bcrypt_compare bc pw (password u) = Inr True \<and> Role u \<noteq> ''client-manager'' \<longrightarrow>
      loginWeb bc ev w em pw =
        (\<lparr>status = Failed, message = ''Email or Password is not correct'',
          responseObject = None, statusCode = 422\<rparr>, w)) \<and>
   (readFault w = None \<and> find (\<lambda>d. email d = em) (users w) = Some u \<and>
    bcrypt_compare bc pw (password u) = Inr False \<longrightarrow>
      loginWeb bc ev w em pw =
        (\<lparr>status = Failed, message = ''Email or Password is not correct'',
          responseObject = None, statusCode = 422\<rparr>, w)) \<and>
   (readFault w = None \<and> em \<notin> email ` set (users w) \<longrightarrow>
      loginWeb bc ev w em pw =
        (\<lparr>status = Failed, message = ''Email or Password is not correct'',
          responseObject = None, statusCode = 422\<rparr>, w))"
proof (intro conjI impI)
  assume "status (fst (loginWeb bc ev w em pw)) = Success"
  from loginWeb_success_cases [OF this]
  show "\<exists>u. find (\<lambda>d. email d = em) (users w) = Some u \<and> Role u = ''client-manager''"
    by blast
next
  assume "readFault w = None \<and> find (\<lambda>d. email d = em) (users w) = Some u \<and>
    bcrypt_compare bc pw (password u) = Inr True \<and> Role u \<noteq> ''client-manager''"
  then show "loginWeb bc ev w em pw =
        (\<lparr>status = Failed, message = ''Email or Password is not correct'',
          responseObject = None, statusCode = 422\<rparr>, w)"
    by (simp add: loginWeb_not_manager)
next
  assume "readFault w = None \<and> find (\<lambda>d. email d = em) (users w) = Some u \<and>
    bcrypt_compare bc pw (password u) = Inr False"
  then show "loginWeb bc ev w em pw =
        (\<lparr>status = Failed, message = ''Email or Password is not correct'',
          responseObject = None, statusCode = 422\<rparr>, w)"
    by (simp add: loginWeb_denied)
next
  assume "readFault w = None \<and> em \<notin> email ` set (users w)"
  then show "loginWeb bc ev w em pw =
        (\<lparr>status = Failed, message = ''Email or Password is not correct'',
          responseObject = None, statusCode = 422\<rparr>, w)"
    by (simp add: loginWeb_absent find_absent)
qed

theorem loginWeb_manager_only_witness:
  "status (fst (loginWeb toy_bcrypt demo_env demo_world ''alice@example.com'' ''secret123'')) =
     Success \<and>
   (\<exists>u. find (\<lambda>d. email d = ''alice@example.com'') (users demo_world) = Some u \<and>
        Role u = ''client-manager'') \<and>
   readFault demo_world = None \<and>
   find (\<lambda>d. email d = ''bob@example.com'') (users demo_world) = Some bob \<and>
   bcrypt_compare toy_bcrypt ''password'' (password bob) = Inr True \<and>
   Role bob \<noteq> ''client-manager'' \<and>
   loginWeb toy_bcrypt demo_env demo_world ''bob@example.com'' ''password'' =
     (\<lparr>status = Failed, message = ''Email or Password is not correct'',
       responseObject = None, statusCode = 422\<rparr>, demo_world) \<and>
   find (\<lambda>d. email d = ''alice@example.com'') (users demo_world) = Some alice \<and>
   bcrypt_compare toy_bcrypt ''guess'' (password alice) = Inr False \<and>
   loginWeb toy_bcrypt demo_env demo_world ''alice@example.com'' ''guess'' =
     (\<lparr>status = Failed, message = ''Email or Password is not correct'',
       responseObject = None, statusCode = 422\<rparr>, demo_world) \<and>
   ''nobody@example.com'' \<notin> email ` set (users demo_world) \<and>
   loginWeb toy_bcrypt demo_env demo_world ''nobody@example.com'' ''guess'' =
     (\<lparr>status = Failed, message = ''Email or Password is not correct'',
       responseObject = None, statusCode = 422\<rparr>, demo_world)"
proof -
  have s: "status (fst (loginWeb toy_bcrypt demo_env demo_world ''alice@example.com''
             ''secret123'')) = Success"
    by (simp add: loginWeb_def loginWeb_try_def User_findOne_def jwt_sign_def or_default_def
        response_defs demo_defs Let_def)
  have h: "readFault demo_world = None" by (simp add: demo_world_def)
  have fb: "find (\<lambda>d. email d = ''bob@example.com'') (users demo_world) = Some bob"
    by (simp add: demo_world_def alice_def bob_def)
  have cb: "bcrypt_compare toy_bcrypt ''password'' (password bob) = Inr True"
    by (simp add: toy_bcrypt_def bob_def)
  have rb: "Role bob \<noteq> ''client-manager''" by (simp add: bob_def)
  have fa: "find (\<lambda>d. email d = ''alice@example.com'') (users demo_world) = Some alice"
    by (simp add: demo_world_def alice_def)
  have ca: "bcrypt_compare toy_bcrypt ''guess'' (password alice) = Inr False"
    by (simp add: toy_bcrypt_def alice_def)
  have n: "''nobody@example.com'' \<notin> email ` set (users demo_world)"
    by (simp add: demo_world_def alice_def bob_def)
  note t1 = loginWeb_manager_only [where bc = toy_bcrypt and ev = demo_env and w = demo_world
      and em = "''alice@example.com''" and pw = "''secret123''" and u = alice]
  note t2 = loginWeb_manager_only [where bc = toy_bcrypt and ev = demo_env and w = demo_world
      and em = "''bob@example.com''" and pw = "''password''" and u = bob]
  note t3 = loginWeb_manager_only [where bc = toy_bcrypt and ev = demo_env and w = demo_world
      and em = "''alice@example.com''" and pw = "''guess''" and u = alice]
  note t4 = loginWeb_manager_only [where bc = toy_bcrypt and ev = demo_env and w = demo_world
      and em = "''nobody@example.com''" and pw = "''guess''" and u = alice]
  from s t1
  have e: "\<exists>u. find (\<lambda>d. email d = ''alice@example.com'') (users demo_world) = Some u \<and>
        Role u = ''client-manager''" by blast
  from h fb cb rb t2
  have b: "loginWeb toy_bcrypt demo_env demo_world ''bob@example.com'' ''password'' =
     (\<lparr>status = Failed, message = ''Email or Password is not correct'',
       responseObject = None, statusCode = 422\<rparr>, demo_world)" by blast
  from h fa ca t3
  have a: "loginWeb toy_bcrypt demo_env demo_world ''alice@example.com'' ''guess'' =
     (\<lparr>status = Failed, message = ''Email or Password is not correct'',
       responseObject = None, statusCode = 422\<rparr>, demo_world)" by blast
  from h n t4
  have x: "loginWeb toy_bcrypt demo_env demo_world ''nobody@example.com'' ''guess'' =
     (\<lparr>status = Failed, message = ''Email or Password is not correct'',
       responseObject = None, statusCode = 422\<rparr>, demo_world)" by blast
  from s e h fb cb rb b fa ca a n x show ?thesis by (intro conjI)
qed

text \<open>
  C4. In \<^verbatim>\<open>register\<close> the look-up of the e-mail address comes before the comparison of
  \<^verbatim>\<open>password\<close> and \<^verbatim>\<open>confirmPassword\<close>: a request whose address already has an account
  and whose two passwords differ is answered Failed, status 422, "Email is already in
  use", and the world is left as it was.
\<close>

theorem register_duplicate_email_first:
  assumes "readFault w = None" and "req_email req \<in> email ` set (users w)"
    and "req_password req \<noteq> req_confirmPassword req"
  shows "register bc ids now1 now2 entropy w req =
           (\<lparr>status = Failed, message = ''Email is already in use'',
             responseObject = None, statusCode = 422\<rparr>, w)"
proof -
  from assms(2) obtain u where "find (\<lambda>d. email d = req_email req) (users w) = Some u"
    using find_member by fastforce
  with assms(1) show ?thesis
    by (simp add: register_found)
qed

theorem register_duplicate_email_first_witness:
  "readFault demo_world = None \<and>
   req_email duplicate_request \<in> email ` set (users demo_world) \<and>
   req_password duplicate_request \<noteq> req_confirmPassword duplicate_request \<and>
   register toy_bcrypt (''65a3'', ''u-3'') 3 4 ''nacl'' demo_world duplicate_request =
     (\<lparr>status = Failed, message = ''Email is already in use'',
       responseObject = None, statusCode = 422\<rparr>, demo_world)"
proof -
  have h: "readFault demo_world = None" by (simp add: demo_world_def)
  have m: "req_email duplicate_request \<in> email ` set (users demo_world)"
    by (simp add: duplicate_request_def demo_world_def alice_def)
  have d: "req_password duplicate_request \<noteq> req_confirmPassword duplicate_request"
    by (simp add: duplicate_request_def)
  note t = register_duplicate_email_first [OF h m d,
      of toy_bcrypt "(''65a3'', ''u-3'')" 3 4 "''nacl''"]
  from h m d t show ?thesis by (intro conjI)
qed

text \<open>
  C5. A request with an e-mail address no account has and with \<^verbatim>\<open>password\<close> different
  from \<^verbatim>\<open>confirmPassword\<close> is answered Failed, status 422, "Passwords do not match", and
  the world after the call is the world before it: no document is created or updated
  (with \<open>writeFault w = None\<close> a call of \<^verbatim>\<open>createUserAsync\<close> would append one) and
  nothing is logged.
\<close>

theorem register_password_mismatch:
  assumes "readFault w = None" and "req_email req \<notin> email ` set (users w)"
    and "req_password req \<noteq> req_confirmPassword req"
  shows "register bc ids now1 now2 entropy w req =
           (\<lparr>status = Failed, message = ''Passwords do not match'',
             responseObject = None, statusCode = 422\<rparr>, w)"
  using assms by (simp add: register_mismatch find_absent)

theorem register_password_mismatch_witness:
  "readFault demo_world = None \<and>
   req_email mismatch_request \<notin> email ` set (users demo_world) \<and>
   req_password mismatch_request \<noteq> req_confirmPassword mismatch_request \<and>
   register toy_bcrypt (''65a3'', ''u-3'') 3 4 ''nacl'' demo_world mismatch_request =
     (\<lparr>status = Failed, message = ''Passwords do not match'',
       responseObject = None, statusCode = 422\<rparr>, demo_world)"
proof -
  have h: "readFault demo_world = None" by (simp add: demo_world_def)
  have m: "req_email mismatch_request \<notin> email ` set (users demo_world)"
    by (simp add: mismatch_request_def demo_world_def alice_def bob_def)
  have d: "req_password mismatch_request \<noteq> req_confirmPassword mismatch_request"
    by (simp add: mismatch_request_def)
  note t = register_password_mismatch [OF h m d,
      of toy_bcrypt "(''65a3'', ''u-3'')" 3 4 "''nacl''"]
  from h m d t show ?thesis by (intro conjI)
qed

text \<open>
  C6, as the code has it. For every \<open>userId\<close>, whatever the store holds,
  \<^verbatim>\<open>generateRefreshToken\<close> returns Success with status 200 and a refresh token that
  carries \<open>userId\<close> under the key \<^verbatim>\<open>userId\<close> and expires in 7d. The token is signed
  with \<^verbatim>\<open>TOKEN_SECRET\<close> (or its default), the secret \<^verbatim>\<open>loginWeb\<close> signs with, not with
  the \<^verbatim>\<open>JWT_SECRET\<close> of \<^verbatim>\<open>login\<close>. Nothing is read from or written to the world.
\<close>

theorem generateRefreshToken_token_secret:
  "generateRefreshToken ev w userId =
     (\<lparr>status = Success, message = ''Refresh token generated successfully'',
       responseObject = Some
         \<lparr>refreshToken =
            Jwt [(''userId'', userId)] (or_default (TOKEN_SECRET ev) ''default_secret'') ''7d''\<rparr>,
       statusCode = 200\<rparr>, w)"
  by (simp add: generateRefreshToken_def response_defs)

text \<open>
  C6 as stated (signed with the secret of \<^verbatim>\<open>login\<close>) fails where the two secrets differ:
  with \<^verbatim>\<open>JWT_SECRET\<close> jwt-key and \<^verbatim>\<open>TOKEN_SECRET\<close> web-key the refresh token is signed
  with web-key, as the tokens of \<^verbatim>\<open>loginWeb\<close> are, while \<^verbatim>\<open>login\<close> signs with jwt-key.
\<close>

theorem generateRefreshToken_primary_secret_counterexample:
  "generateRefreshToken demo_env demo_world ''u-2'' =
     (\<lparr>status = Success, message = ''Refresh token generated successfully'',
       responseObject = Some \<lparr>refreshToken = Jwt [(''userId'', ''u-2'')] ''web-key'' ''7d''\<rparr>,
       statusCode = 200\<rparr>, demo_world) \<and>
   fst (login toy_bcrypt demo_env demo_world ''bob@example.com'' ''password'') =
     \<lparr>status = Success, message = ''Login successfully'',
      responseObject = Some
        \<lparr>refreshToken = Jwt [(''id'', ''u-2'')] ''jwt-key'' ''2d'',
         token = Jwt [(''id'', ''u-2'')] ''jwt-key'' ''1d''\<rparr>,
      statusCode = 200\<rparr> \<and>
   fst (loginWeb toy_bcrypt demo_env demo_world ''alice@example.com'' ''secret123'') =
     \<lparr>status = Success, message = ''Login successfully'',
      responseObject = Some
        \<lparr>refreshToken = Jwt [(''id'', ''u-1'')] ''web-key'' ''2d'',
         token = Jwt [(''id'', ''u-1'')] ''web-key'' ''1d''\<rparr>,
      statusCode = 200\<rparr> \<and>
   secretOrPrivateKey (Jwt [(''userId'', ''u-2'')] ''web-key'' ''7d'') \<noteq>
     or_default (JWT_SECRET demo_env) ''default_secret''"
  by (simp add: generateRefreshToken_def login_def login_try_def loginWeb_def loginWeb_try_def
      findByEmailAsync_def User_findOne_def jwt_sign_def or_default_def response_defs demo_defs
      Let_def)

text \<open>
  C7. When the store answers the query, \<^verbatim>\<open>checkEmailExist\<close> returns Success with status
  200 and the payload \<^verbatim>\<open>{isExited}\<close>, true exactly when some account has the e-mail
  address. It returns Failed only when the store rejects the query, and then with status
  500 and no payload.
\<close>

theorem checkEmailExist_probe:
  "(readFault w = None \<longrightarrow>
      status (fst (checkEmailExist w em)) = Success \<and>
      statusCode (fst (checkEmailExist w em)) = 200 \<and>
      responseObject (fst (checkEmailExist w em)) =
        Some \<lparr>isExited = (em \<in> email ` set (users w))\<rparr>) \<and>
   (status (fst (checkEmailExist w em)) = Failed \<longrightarrow>
      readFault w \<noteq> None \<and> statusCode (fst (checkEmailExist w em)) = 500 \<and>
      responseObject (fst (checkEmailExist w em)) = None)"
  by (simp add: checkEmailExist_cases split: option.splits)

theorem checkEmailExist_probe_witness:
  "readFault demo_world = None \<and>
   status (fst (checkEmailExist demo_world ''alice@example.com'')) = Success \<and>
   statusCode (fst (checkEmailExist demo_world ''alice@example.com'')) = 200 \<and>
   responseObject (fst (checkEmailExist demo_world ''alice@example.com'')) =
     Some \<lparr>isExited = True\<rparr> \<and>
   responseObject (fst (checkEmailExist demo_world ''nobody@example.com'')) =
     Some \<lparr>isExited = False\<rparr> \<and>
   status (fst (checkEmailExist down_world ''alice@example.com'')) = Failed \<and>
   readFault down_world \<noteq> None \<and>
   statusCode (fst (checkEmailExist down_world ''alice@example.com'')) = 500 \<and>
   responseObject (fst (checkEmailExist down_world ''alice@example.com'')) = None"
proof -
  have h: "readFault demo_world = None" by (simp add: demo_world_def)
  have a: "(''alice@example.com'' \<in> email ` set (users demo_world)) = True"
    by (simp add: demo_world_def alice_def)
  have n: "(''nobody@example.com'' \<in> email ` set (users demo_world)) = False"
    by (simp add: demo_world_def alice_def bob_def)
  have f: "status (fst (checkEmailExist down_world ''alice@example.com'')) = Failed"
    by (simp add: checkEmailExist_def User_findOne_def response_defs down_world_def
        demo_world_def Let_def)
  note p1 = checkEmailExist_probe [of demo_world "''alice@example.com''",
      THEN conjunct1, rule_format, OF h, unfolded a]
  note p2 = checkEmailExist_probe [of demo_world "''nobody@example.com''",
      THEN conjunct1, rule_format, OF h, unfolded n]
  note p3 = checkEmailExist_probe [of down_world "''alice@example.com''",
      THEN conjunct2, rule_format, OF f]
  from h p1 p2 p3 f show ?thesis by blast
qed

text \<open>
  C8. The envelope each of the five operations returns satisfies the invariant: Failed
  implies no payload and a 4xx or 5xx code, Success implies a 2xx code. The code of a
  failure matches its cause. It is 500 exactly when an awaited call inside the
  \<^verbatim>\<open>try\<close> was rejected: the store's query in all four operations that read the store,
  \<^verbatim>\<open>bcrypt.compare\<close> in \<^verbatim>\<open>login\<close> (for the account found) and in \<^verbatim>\<open>loginWeb\<close> (for a
  manager found), \<^verbatim>\<open>genSalt\<close> or \<^verbatim>\<open>hash\<close> in \<^verbatim>\<open>register\<close> (for an unused address and
  matching passwords). Every other failure is a validation failure with code 422.
  \<^verbatim>\<open>checkEmailExist\<close> fails only on a store fault and \<^verbatim>\<open>generateRefreshToken\<close> never
  fails.
\<close>

theorem envelope_invariant_all_operations:
  "envelope_invariant (fst (login bc ev w em pw)) \<and>
   envelope_invariant (fst (loginWeb bc ev w em pw)) \<and>
   envelope_invariant (fst (register bc ids now1 now2 entropy w req)) \<and>
   envelope_invariant (fst (checkEmailExist w em)) \<and>
   envelope_invariant (fst (generateRefreshToken ev w userId)) \<and>
   (status (fst (login bc ev w em pw)) = Failed \<longrightarrow>
      statusCode (fst (login bc ev w em pw)) =
        (if readFault w \<noteq> None \<or>
            (case find (\<lambda>d. email d = em) (users w) of
               None \<Rightarrow> False
             | Some u \<Rightarrow> isl (bcrypt_compare bc pw (password u)))
         then 500 else 422)) \<and>
   (status (fst (loginWeb bc ev w em pw)) = Failed \<longrightarrow>
      statusCode (fst (loginWeb bc ev w em pw)) =
        (if readFault w \<noteq> None \<or>
            (case find (\<lambda>d. email d = em) (users w) of
               None \<Rightarrow> False
             | Some u \<Rightarrow>
                 Role u = ''client-manager'' \<and> isl (bcrypt_compare bc pw (password u)))
         then 500 else 422)) \<and>
   (status (fst (register bc ids now1 now2 entropy w req)) = Failed \<longrightarrow>
      statusCode (fst (register bc ids now1 now2 entropy w req)) =
        (if readFault w \<noteq> None \<or>
            (find (\<lambda>d. email d = req_email req) (users w) = None \<and>
             req_password req = req_confirmPassword req \<and>
             isl (bcrypt_hash_rounds bc (req_password req) 10 entropy))
         then 500 else 422)) \<and>
   (status (fst (checkEmailExist w em)) = Failed \<longrightarrow>
      statusCode (fst (checkEmailExist w em)) = 500 \<and> readFault w \<noteq> None) \<and>
   status (fst (generateRefreshToken ev w userId)) = Success"
proof -
  have l: "envelope_invariant (fst (login bc ev w em pw)) \<and>
    (status (fst (login bc ev w em pw)) = Failed \<longrightarrow>
       statusCode (fst (login bc ev w em pw)) =
         (if readFault w \<noteq> None \<or>
             (case find (\<lambda>d. email d = em) (users w) of
                None \<Rightarrow> False
              | Some u \<Rightarrow> isl (bcrypt_compare bc pw (password u)))
          then 500 else 422))"
  proof (cases "readFault w")
    case (Some ex)
    then show ?thesis
      by (simp add: login_fault envelope_invariant_def)
  next
    case None
    show ?thesis
    proof (cases "find (\<lambda>d. email d = em) (users w)")
      case nf: None
      with None show ?thesis
        by (simp add: login_absent envelope_invariant_def)
    next
      case (Some u)
      show ?thesis
      proof (cases "bcrypt_compare bc pw (password u)")
        case (Inl ex)
        with None Some show ?thesis
          by (simp add: login_compare_rejects envelope_invariant_def)
      next
        case (Inr ok)
        with None Some show ?thesis
          by (cases ok) (simp_all add: login_accepted login_denied envelope_invariant_def)
      qed
    qed
  qed
  have lw: "envelope_invariant (fst (loginWeb bc ev w em pw)) \<and>
    (status (fst (loginWeb bc ev w em pw)) = Failed \<longrightarrow>
       statusCode (fst (loginWeb bc ev w em pw)) =
         (if readFault w \<noteq> None \<or>
             (case find (\<lambda>d. email d = em) (users w) of
                None \<Rightarrow> False
              | Some u \<Rightarrow>
                  Role u = ''client-manager'' \<and> isl (bcrypt_compare bc pw (password u)))
          then 500 else 422))"
  proof (cases "readFault w")
    case (Some ex)
    then show ?thesis
      by (simp add: loginWeb_fault envelope_invariant_def)
  next
    case None
    show ?thesis
    proof (cases "find (\<lambda>d. email d = em) (users w)")
      case nf: None
      with None show ?thesis
        by (simp add: loginWeb_absent envelope_invariant_def)
    next
      case (Some u)
      show ?thesis
      proof (cases "Role u = ''client-manager''")
        case False
        with None Some show ?thesis
          by (simp add: loginWeb_not_manager envelope_invariant_def)
      next
        case True
        show ?thesis
        proof (cases "bcrypt_compare bc pw (password u)")
          case (Inl ex)
          with None Some True show ?thesis
            by (simp add: loginWeb_compare_rejects envelope_invariant_def)
        next
          case (Inr ok)
          with None Some True show ?thesis
            by (cases ok)
              (simp_all add: loginWeb_accepted loginWeb_denied envelope_invariant_def)
        qed
      qed
    qed
  qed
  have r: "envelope_invariant (fst (register bc ids now1 now2 entropy w req)) \<and>
    (status (fst (register bc ids now1 now2 entropy w req)) = Failed \<longrightarrow>
       statusCode (fst (register bc ids now1 now2 entropy w req)) =
         (if readFault w \<noteq> None \<or>
             (find (\<lambda>d. email d = req_email req) (users w) = None \<and>
              req_password req = req_confirmPassword req \<and>
              isl (bcrypt_hash_rounds bc (req_password req) 10 entropy))
          then 500 else 422))"
  proof (cases "readFault w")
    case (Some ex)
    then show ?thesis
      by (simp add: register_fault envelope_invariant_def)
  next
    case None
    show ?thesis
    proof (cases "find (\<lambda>d. email d = req_email req) (users w)")
      case (Some u)
      with None show ?thesis
        by (simp add: register_found envelope_invariant_def)
    next
      case nf: None
      show ?thesis
      proof (cases "req_password req = req_confirmPassword req")
        case False
        with None nf show ?thesis
          by (simp add: register_mismatch envelope_invariant_def)
      next
        case True
        show ?thesis
        proof (cases "bcrypt_hash_rounds bc (req_password req) 10 entropy")
          case (Inl ex)
          from register_hashing_rejects [OF None nf True Inl] None nf True Inl
          show ?thesis
            by (simp add: envelope_invariant_def)
        next
          case (Inr h)
          from register_created(1) [OF None nf True Inr, of ids now1 now2]
          obtain p where "fst (register bc ids now1 now2 entropy w req) =
             \<lparr>status = Success, message = ''User registered successfully'',
              responseObject = Some p, statusCode = 200\<rparr>"
            by blast
          then show ?thesis
            by (simp add: envelope_invariant_def)
        qed
      qed
    qed
  qed
  have c: "envelope_invariant (fst (checkEmailExist w em)) \<and>
    (status (fst (checkEmailExist w em)) = Failed \<longrightarrow>
       statusCode (fst (checkEmailExist w em)) = 500 \<and> readFault w \<noteq> None)"
    by (simp add: checkEmailExist_cases envelope_invariant_def split: option.splits)
  have g: "envelope_invariant (fst (generateRefreshToken ev w userId)) \<and>
    status (fst (generateRefreshToken ev w userId)) = Success"
    by (simp add: generateRefreshToken_cases envelope_invariant_def)
  from l lw r c g show ?thesis by blast
qed

text \<open>
  The invariant and the causes at four failures and one success: a password that does
  not verify (422), a store that is down (500), a stored password that is not a hash, so
  that the verification itself is rejected although the store answered (500, in
  \<^verbatim>\<open>login\<close> and in \<^verbatim>\<open>loginWeb\<close>), and a refresh token (200).
\<close>

theorem envelope_invariant_all_operations_witness:
  "status (fst (login toy_bcrypt demo_env demo_world ''bob@example.com'' ''guess'')) = Failed \<and>
   responseObject (fst (login toy_bcrypt demo_env demo_world ''bob@example.com'' ''guess'')) =
     None \<and>
   statusCode (fst (login toy_bcrypt demo_env demo_world ''bob@example.com'' ''guess'')) = 422 \<and>
   status (fst (checkEmailExist down_world ''bob@example.com'')) = Failed \<and>
   responseObject (fst (checkEmailExist down_world ''bob@example.com'')) = None \<and>
   statusCode (fst (checkEmailExist down_world ''bob@example.com'')) = 500 \<and>
   readFault legacy_world = None \<and>
   status (fst (login toy_bcrypt demo_env legacy_world ''dave@example.com'' ''guess'')) =
     Failed \<and>
   responseObject (fst (login toy_bcrypt demo_env legacy_world ''dave@example.com'' ''guess'')) =
     None \<and>
   statusCode (fst (login toy_bcrypt demo_env legacy_world ''dave@example.com'' ''guess'')) =
     500 \<and>
   status (fst (loginWeb toy_bcrypt demo_env legacy_world ''dave@example.com'' ''guess'')) =
     Failed \<and>
   statusCode (fst (loginWeb toy_bcrypt demo_env legacy_world ''dave@example.com'' ''guess'')) =
     500 \<and>
   status (fst (generateRefreshToken demo_env demo_world ''u-9'')) = Success \<and>
   200 \<le> statusCode (fst (generateRefreshToken demo_env demo_world ''u-9'')) \<and>
   statusCode (fst (generateRefreshToken demo_env demo_world ''u-9'')) < 300"
proof -
  have h: "readFault demo_world = None" by (simp add: demo_world_def)
  have fb: "find (\<lambda>d. email d = ''bob@example.com'') (users demo_world) = Some bob"
    by (simp add: demo_world_def alice_def bob_def)
  have cb: "bcrypt_compare toy_bcrypt ''guess'' (password bob) = Inr False"
    by (simp add: toy_bcrypt_def bob_def)
  have hl: "readFault legacy_world = None" by (simp add: legacy_world_def)
  have fd: "find (\<lambda>d. email d = ''dave@example.com'') (users legacy_world) = Some dave"
    by (simp add: legacy_world_def dave_def)
  have rd: "Role dave = ''client-manager''" by (simp add: dave_def)
  have cd: "bcrypt_compare toy_bcrypt ''guess'' (password dave) = Inl ''Invalid salt version''"
    by (simp add: toy_bcrypt_def dave_def)
  have f1: "status (fst (login toy_bcrypt demo_env demo_world ''bob@example.com'' ''guess'')) =
      Failed"
    by (simp add: login_denied [OF h fb cb])
  have f2: "status (fst (checkEmailExist down_world ''bob@example.com'')) = Failed"
    by (simp add: checkEmailExist_def User_findOne_def response_defs down_world_def
        demo_world_def Let_def)
  have f3: "status (fst (login toy_bcrypt demo_env legacy_world ''dave@example.com''
      ''guess'')) = Failed"
    by (simp add: login_compare_rejects [OF hl fd cd])
  have f4: "status (fst (loginWeb toy_bcrypt demo_env legacy_world ''dave@example.com''
      ''guess'')) = Failed"
    by (simp add: loginWeb_compare_rejects [OF hl fd rd cd])
  note t1 = envelope_invariant_all_operations [where bc = toy_bcrypt and ev = demo_env
      and w = demo_world and em = "''bob@example.com''" and pw = "''guess''"
      and userId = "''u-9''"]
  note t2 = envelope_invariant_all_operations [where w = down_world
      and em = "''bob@example.com''"]
  note t3 = envelope_invariant_all_operations [where bc = toy_bcrypt and ev = demo_env
      and w = legacy_world and em = "''dave@example.com''" and pw = "''guess''"]
  note inv1 = t1 [THEN conjunct1, unfolded envelope_invariant_def, THEN conjunct1,
      rule_format, OF f1]
  note cause1 = t1 [THEN conjunct2, THEN conjunct2, THEN conjunct2, THEN conjunct2,
      THEN conjunct2, THEN conjunct1, rule_format, OF f1]
  note inv2 = t2 [THEN conjunct2, THEN conjunct2, THEN conjunct2, THEN conjunct1,
      unfolded envelope_invariant_def, THEN conjunct1, rule_format, OF f2]
  note cause2 = t2 [THEN conjunct2, THEN conjunct2, THEN conjunct2, THEN conjunct2,
      THEN conjunct2, THEN conjunct2, THEN conjunct2, THEN conjunct2, THEN conjunct1,
      rule_format, OF f2]
  note inv3 = t3 [THEN conjunct1, unfolded envelope_invariant_def, THEN conjunct1,
      rule_format, OF f3]
  note cause3 = t3 [THEN conjunct2, THEN conjunct2, THEN conjunct2, THEN conjunct2,
      THEN conjunct2, THEN conjunct1, rule_format, OF f3]
  note cause4 = t3 [THEN conjunct2, THEN conjunct2, THEN conjunct2, THEN conjunct2,
      THEN conjunct2, THEN conjunct2, THEN conjunct1, rule_format, OF f4]
  note gen = t1 [THEN conjunct2, THEN conjunct2, THEN conjunct2, THEN conjunct2,
      THEN conjunct2, THEN conjunct2, THEN conjunct2, THEN conjunct2, THEN conjunct2]
  note geninv = t1 [THEN conjunct2, THEN conjunct2, THEN conjunct2, THEN conjunct2,
      THEN conjunct1, unfolded envelope_invariant_def, THEN conjunct2, rule_format, OF gen]
  from inv1 have a: "responseObject (fst (login toy_bcrypt demo_env demo_world
      ''bob@example.com'' ''guess'')) = None" by (rule conjunct1)
  from cause1 have b: "statusCode (fst (login toy_bcrypt demo_env demo_world
      ''bob@example.com'' ''guess'')) = 422" by (simp add: h fb cb)
  from inv2 have c: "responseObject (fst (checkEmailExist down_world ''bob@example.com'')) = None"
    by (rule conjunct1)
  from cause2 have d: "statusCode (fst (checkEmailExist down_world ''bob@example.com'')) = 500"
    by (rule conjunct1)
  from inv3 have e: "responseObject (fst (login toy_bcrypt demo_env legacy_world
      ''dave@example.com'' ''guess'')) = None" by (rule conjunct1)
  from cause3 have f: "statusCode (fst (login toy_bcrypt demo_env legacy_world
      ''dave@example.com'' ''guess'')) = 500" by (simp add: hl fd cd)
  from cause4 have g: "statusCode (fst (loginWeb toy_bcrypt demo_env legacy_world
      ''dave@example.com'' ''guess'')) = 500" by (simp add: hl fd rd cd)
  from f1 a b f2 c d hl f3 e f f4 g gen geninv show ?thesis by (intro conjI) blast+
qed

text \<open>
  C9. \<^verbatim>\<open>changePasswordAsync\<close> hashes the new password with a salt of work factor 10 and
  persists the hash: when the store accepts the write and a document has the given
  \<^verbatim>\<open>_id\<close>, the call returns that document with \<^verbatim>\<open>password\<close> replaced by the hash, and
  the stored document is the returned one. For a bcrypt whose hash never returns its
  input, what is stored is not the plaintext. Should the hashing itself be rejected, the
  call is rejected with that error and the store is left as it was: the plaintext is not
  written on that path either.
\<close>

theorem changePasswordAsync_persists_hash:
  assumes "writeFault w = None" and "find (\<lambda>d. oid d = i) (users w) = Some d"
    and "\<forall>s salt h. bcrypt_hash bc s salt = Inr h \<longrightarrow> h \<noteq> s"
  shows "case bcrypt_hash_rounds bc newPassword 10 entropy of
           Inr h \<Rightarrow>
             fst (changePasswordAsync bc entropy w i newPassword) =
               Inr (Some (d\<lparr>password := h\<rparr>)) \<and>
             find (\<lambda>d. oid d = i)
               (users (snd (changePasswordAsync bc entropy w i newPassword))) =
               Some (d\<lparr>password := h\<rparr>) \<and>
             h \<noteq> newPassword
         | Inl ex \<Rightarrow> changePasswordAsync bc entropy w i newPassword = (Inl ex, w)"
proof (cases "bcrypt_hash_rounds bc newPassword 10 entropy")
  case (Inl ex)
  then show ?thesis
    by (simp add: changePasswordAsync_def)
next
  case (Inr h)
  from assms(2) have k: "oid d = i"
    by (auto simp: find_Some_iff)
  have stored: "find (\<lambda>d. oid d = i)
          (update_first (\<lambda>d. oid d = i) (\<lambda>d. d\<lparr>password := h\<rparr>) (users w)) =
        Some (d\<lparr>password := h\<rparr>)"
    by (rule find_update_first [OF assms(2)]) (simp add: k)
  from Inr obtain salt where "bcrypt_hash bc newPassword salt = Inr h"
    by (auto simp: bcrypt_hash_rounds_def split: sum.splits)
  with assms(3) have "h \<noteq> newPassword"
    by blast
  with Inr stored assms(1,2) show ?thesis
    by (simp add: changePasswordAsync_def User_findByIdAndUpdate_def)
qed

theorem changePasswordAsync_persists_hash_witness:
  "writeFault demo_world = None \<and>
   find (\<lambda>d. oid d = ''65a2'') (users demo_world) = Some bob \<and>
   bcrypt_hash_rounds toy_bcrypt ''hunter2'' 10 ''nacl'' = Inr ''$$$$$$$$$$nacl.2retnuh'' \<and>
   fst (changePasswordAsync toy_bcrypt ''nacl'' demo_world ''65a2'' ''hunter2'') =
     Inr (Some (bob\<lparr>password := ''$$$$$$$$$$nacl.2retnuh''\<rparr>)) \<and>
   find (\<lambda>d. oid d = ''65a2'')
     (users (snd (changePasswordAsync toy_bcrypt ''nacl'' demo_world ''65a2'' ''hunter2''))) =
     Some (bob\<lparr>password := ''$$$$$$$$$$nacl.2retnuh''\<rparr>) \<and>
   ''$$$$$$$$$$nacl.2retnuh'' \<noteq> ''hunter2''"
proof -
  have h1: "writeFault demo_world = None" by (simp add: demo_world_def)
  have h2: "find (\<lambda>d. oid d = ''65a2'') (users demo_world) = Some bob"
    by (simp add: demo_world_def alice_def bob_def)
  have e: "bcrypt_hash_rounds toy_bcrypt ''hunter2'' 10 ''nacl'' = Inr ''$$$$$$$$$$nacl.2retnuh''"
    by (simp add: bcrypt_hash_rounds_def toy_bcrypt_def eval_nat_numeral)
  note p = changePasswordAsync_persists_hash [OF h1 h2 toy_hash_not_identity,
      where entropy = "''nacl''" and newPassword = "''hunter2''", unfolded e sum.case]
  from h1 h2 e p show ?thesis by blast
qed

text \<open>
  C10. When the account found for the e-mail address has a role other than
  \<^verbatim>\<open>client-manager\<close>, \<^verbatim>\<open>loginWeb\<close> returns Failed, status 422, "Email or Password is not
  correct" before it looks at the password: the result is the same for every password
  and every bcrypt.
\<close>

theorem loginWeb_role_gate_ignores_password:
  assumes "readFault w = None" and "find (\<lambda>d. email d = em) (users w) = Some u"
    and "Role u \<noteq> ''client-manager''"
  shows "loginWeb bc ev w em pw =
           (\<lparr>status = Failed, message = ''Email or Password is not correct'',
             responseObject = None, statusCode = 422\<rparr>, w) \<and>
         loginWeb bc ev w em pw = loginWeb bc' ev w em pw'"
  using assms by (simp add: loginWeb_not_manager)

theorem loginWeb_role_gate_ignores_password_witness:
  "readFault demo_world = None \<and>
   find (\<lambda>d. email d = ''bob@example.com'') (users demo_world) = Some bob \<and>
   Role bob \<noteq> ''client-manager'' \<and>
   loginWeb toy_bcrypt demo_env demo_world ''bob@example.com'' ''password'' =
     (\<lparr>status = Failed, message = ''Email or Password is not correct'',
       responseObject = None, statusCode = 422\<rparr>, demo_world) \<and>
   loginWeb toy_bcrypt demo_env demo_world ''bob@example.com'' ''password'' =
     loginWeb toy_bcrypt demo_env demo_world ''bob@example.com'' ''guess''"
proof -
  have h: "readFault demo_world = None" by (simp add: demo_world_def)
  have fb: "find (\<lambda>d. email d = ''bob@example.com'') (users demo_world) = Some bob"
    by (simp add: demo_world_def alice_def bob_def)
  have rb: "Role bob \<noteq> ''client-manager''" by (simp add: bob_def)
  note t = loginWeb_role_gate_ignores_password [OF h fb rb, where bc = toy_bcrypt
      and ev = demo_env and pw = "''password''" and bc' = toy_bcrypt and pw' = "''guess''"]
  from h fb rb t show ?thesis by (intro conjI) blast+
qed

end
